theory Spec2Isabelle
  imports Main "HOL-Library.Multiset"
begin

section \<open>The file combiner: data model\<close>

text \<open>
  The program is one class, \<open>FileCombinerApp\<close> (src/app.py). Its widgets are modelled by
  the data they hold: the log text box is the list of lines appended to it, the table is
  its list of rows (file name, path), and \<open>file_list\<close> is the Python list of paths.
  \<open>last_directory\<close> is the attribute of that name; the settings store always receives
  the same value right after each assignment to it.
\<close>

record app_state =
  last_directory :: string
  file_list :: "string list"
  file_table :: "(string \<times> string) list"
  log_textbox :: "string list"

text \<open>
  The three \<open>OSError\<close> classes the program tells apart in its \<open>except\<close> clauses.
  \<open>OSError msg\<close> is any other \<open>OSError\<close>, with \<open>msg\<close> the text of \<open>str(e)\<close>.
\<close>

datatype os_error = FileNotFoundError | PermissionError | OSError string

text \<open>The Python exceptions that can be raised while the modelled methods run.\<close>

datatype py_exn = IndexError | TypeError | UnicodeDecodeError | OSErr os_error

subsection \<open>Python string and list primitives\<close>

text \<open>\<open>s.rsplit("/", 1)[0]\<close>: the text before the last slash, all of \<open>s\<close> without one.\<close>

definition rsplit_head :: "string \<Rightarrow> string" where
  "rsplit_head s =
     (if CHR ''/'' \<in> set s
      then rev (tl (dropWhile (\<lambda>c. c \<noteq> CHR ''/'') (rev s)))
      else s)"

text \<open>\<open>s.split("/")[-1]\<close>: the text after the last slash.\<close>

definition split_last :: "string \<Rightarrow> string" where
  "split_last s = rev (takeWhile (\<lambda>c. c \<noteq> CHR ''/'') (rev s))"

text \<open>
  Python list indexing \<open>xs[i]\<close>: a negative index counts from the end, and an index
  outside \<open>-len(xs) .. len(xs) - 1\<close> raises \<open>IndexError\<close> (here: \<open>None\<close>).
\<close>

definition py_index :: "'a list \<Rightarrow> int \<Rightarrow> nat option" where
  "py_index xs i =
     (let n = int (length xs); j = (if i < 0 then i + n else i)
      in if 0 \<le> j \<and> j < n then Some (nat j) else None)"

section \<open>The file list\<close>

text \<open>\<open>log_textbox.append(line)\<close>.\<close>

definition log_append :: "string \<Rightarrow> app_state \<Rightarrow> app_state" where
  "log_append line s = s\<lparr>log_textbox := log_textbox s @ [line]\<rparr>"

text \<open>
  \<open>populate_table\<close>: the table is emptied (\<open>setRowCount(0)\<close>) and gets one row per entry
  of \<open>file_list\<close>, inserted at the end.
\<close>

definition populate_table :: "app_state \<Rightarrow> app_state" where
  "populate_table s =
     s\<lparr>file_table := fold (\<lambda>file rows. rows @ [(split_last file, file)]) (file_list s) []\<rparr>"

text \<open>The body of the loop of \<open>add_files\<close>: one log line, one \<open>file_list.append(file)\<close>.\<close>

definition add_file :: "string \<Rightarrow> app_state \<Rightarrow> app_state" where
  "add_file file s = (log_append (''Added file: '' @ file) s)\<lparr>file_list := file_list s @ [file]\<rparr>"

text \<open>
  \<open>add_files\<close>, with \<open>files\<close> the list the file dialog returned. No statement of the method
  can raise on a list of strings, so it is a total state transformer.
\<close>

definition add_files :: "string list \<Rightarrow> app_state \<Rightarrow> app_state" where
  "add_files files s =
     (case files of
        [] \<Rightarrow> s
      | first # _ \<Rightarrow> populate_table (fold add_file files (s\<lparr>last_directory := rsplit_head first\<rparr>)))"

text \<open>
  The tuple assignment of \<open>dropEvent\<close>,
  \<open>file_list[selected_row], file_list[target_row] = (file_list[target_row], file_list[selected_row])\<close>.
  Python evaluates the right-hand side first, left to right, and either read may raise
  \<open>IndexError\<close> before anything is stored; then it stores into the two targets, left to
  right.
\<close>

definition swap_items :: "'a list \<Rightarrow> int \<Rightarrow> int \<Rightarrow> py_exn + 'a list" where
  "swap_items xs selected_row target_row =
     (case py_index xs target_row of
        None \<Rightarrow> Inl IndexError
      | Some t \<Rightarrow>
          (case py_index xs selected_row of
             None \<Rightarrow> Inl IndexError
           | Some sl \<Rightarrow> Inr ((xs[sl := xs ! t])[t := xs ! sl])))"

text \<open>
  \<open>dropEvent\<close>. Its inputs come from the toolkit: \<open>from_table\<close> is
  \<open>event.source() == self.file_table\<close>, \<open>selected_row\<close> is \<open>file_table.currentRow()\<close> and
  \<open>target_row\<close> is \<open>file_table.indexAt(event.pos()).row()\<close>. The result is the exception
  that leaves the method, if any, and the state it leaves behind. The closing call of the
  base class handler touches none of the modelled state.
\<close>

definition dropEvent :: "bool \<Rightarrow> int \<Rightarrow> int \<Rightarrow> app_state \<Rightarrow> py_exn option \<times> app_state" where
  "dropEvent from_table selected_row target_row s =
     (if from_table then
        (if target_row \<ge> 0 \<and> target_row \<noteq> selected_row then
           (case swap_items (file_list s) selected_row target_row of
              Inl e \<Rightarrow> (Some e, s)
            | Inr xs \<Rightarrow> (None, populate_table (s\<lparr>file_list := xs\<rparr>)))
         else (None, s))
      else (None, s))"

text \<open>
  The table shows the list when it has one row per entry; \<open>populate_table\<close> makes it so
  after every change of the list. The rows that \<open>file_table.indexAt(pos).row()\<close> can
  report are \<open>-1\<close>, for a position over no row, and the rows the table has.
\<close>

definition table_in_step :: "app_state \<Rightarrow> bool" where
  "table_in_step s \<longleftrightarrow> length (file_table s) = length (file_list s)"


text \<open>A state used in the concrete instances below: two files listed and shown.\<close>

definition two_files :: app_state where
  "two_files =
     \<lparr>last_directory = ''/tmp'',
      file_list = [''/tmp/a.txt'', ''/tmp/b.txt''],
      file_table = [(''a.txt'', ''/tmp/a.txt''), (''b.txt'', ''/tmp/b.txt'')],
      log_textbox = []\<rparr>"

section \<open>The combiner\<close>

subsection \<open>The environment of one run\<close>

text \<open>
  What \<open>open(file_path, "r", encoding="utf-8")\<close> followed by \<open>f.read()\<close> does for a path:
  it returns the decoded text, raises an \<open>OSError\<close>, or raises \<open>UnicodeDecodeError\<close>
  (a \<open>ValueError\<close>, not an \<open>OSError\<close>) on bytes that are not UTF-8.
\<close>

datatype read_outcome = Content string | ReadError os_error | DecodeError

text \<open>\<open>datetime.datetime.now()\<close>, as far as \<open>strftime("%Y%m%d")\<close> reads it.\<close>

record date =
  year :: nat
  month :: nat
  day :: nat

text \<open>
  Everything a run takes from outside the program: the clock, the answer of the save
  dialog to the default path it is offered (the empty string when cancelled), what reading
  each path yields during the run, whether the destination opens for writing, whether the
  \<open>k\<close>-th \<open>write\<close> call on the destination file (counted from 0) returns or raises,
  whether closing it returns or raises, and, for a run in which a write or the close
  raised, how many characters of the text handed to \<open>write\<close> are in the file afterwards.
  Source files are taken not to change during a run, so the destination is not one of its
  own sources.
\<close>

record env =
  now :: date
  save_dialog :: "string \<Rightarrow> string"
  read_result :: "string \<Rightarrow> read_outcome"
  open_result :: "string \<Rightarrow> os_error option"
  write_result :: "nat \<Rightarrow> os_error option"
  close_result :: "os_error option"
  flushed :: nat

text \<open>
  The open destination file. It is a buffered text file: \<open>write\<close> puts its text into
  a buffer, and the buffered text goes to the disk in order, at some later \<open>write\<close> or
  at \<open>close\<close>; an error of the disk surfaces in the call that was emptying the buffer.
  \<open>written\<close> is all the text handed to \<open>write\<close> so far, \<open>writes\<close> the number of
  \<open>write\<close> calls, and \<open>failed\<close> says whether a call on the file has raised an
  \<open>OSError\<close>.
\<close>

record out_file =
  written :: string
  writes :: nat
  failed :: bool

text \<open>
  What \<open>combine_files\<close> leaves behind: the exception that leaves the method, if any; the
  text in the destination file if it was opened (\<open>None\<close>: never opened, so not created or
  truncated); and the application state.
\<close>

record combine_result =
  raised :: "py_exn option"
  saved :: "string option"
  after :: app_state

subsection \<open>The default file name\<close>

definition digit_char :: "nat \<Rightarrow> char" where
  "digit_char d = ''0123456789'' ! (d mod 10)"

text \<open>The decimal numeral of a number, as \<open>%d\<close> prints it.\<close>

function dec :: "nat \<Rightarrow> string" where
  "dec n = (if n < 10 then [digit_char n] else dec (n div 10) @ [digit_char n])"
  by pat_completeness auto
termination
  by (relation "measure id") auto

declare dec.simps [simp del]

text \<open>Padding with zeros on the left to a minimal width, as \<open>%02d\<close> and \<open>%04d\<close> do.\<close>

definition zfill :: "nat \<Rightarrow> string \<Rightarrow> string" where
  "zfill w s = replicate (w - length s) CHR ''0'' @ s"

text \<open>
  \<open>strftime("%Y%m%d")\<close>: the year with century as a decimal number of at least four
  digits, the month and the day of the month as decimal numbers of two digits.
\<close>

definition strftime_Ymd :: "date \<Rightarrow> string" where
  "strftime_Ymd d = zfill 4 (dec (year d)) @ zfill 2 (dec (month d)) @ zfill 2 (dec (day d))"

definition default_filename :: "date \<Rightarrow> string" where
  "default_filename d = ''combined_'' @ strftime_Ymd d @ ''.txt''"

text \<open>The path offered to the save dialog, \<open>f"{self.last_directory}/{default_filename}"\<close>.\<close>

definition offered_path :: "env \<Rightarrow> app_state \<Rightarrow> string" where
  "offered_path e s = last_directory s @ ''/'' @ default_filename (now e)"

text \<open>
  A date the clock can show: a year of four digits (\<open>datetime\<close> ends at 9999, and from
  1000 on every platform prints \<open>%Y\<close> alike, padded or not), a month, a day of the month.
  Then the test for a decimal digit, and reading a string of decimal digits back as a
  number.
\<close>

definition valid_date :: "date \<Rightarrow> bool" where
  "valid_date d \<longleftrightarrow> 1000 \<le> year d \<and> year d \<le> 9999 \<and> 1 \<le> month d \<and> month d \<le> 12
     \<and> 1 \<le> day d \<and> day d \<le> 31"

definition is_digit :: "char \<Rightarrow> bool" where
  "is_digit c \<longleftrightarrow> c \<in> set ''0123456789''"

definition digits_value :: "string \<Rightarrow> nat" where
  "digits_value cs = foldl (\<lambda>a c. 10 * a + (of_char c - 48)) 0 cs"

subsection \<open>Reading and writing\<close>

text \<open>
  \<open>read_file\<close>: the text of the file; in each \<open>except\<close> clause one log line, after which the
  method ends without a \<open>return\<close>, so its value is \<open>None\<close>. \<open>UnicodeDecodeError\<close> matches no
  clause and leaves the method.
\<close>

definition read_file :: "env \<Rightarrow> string \<Rightarrow> app_state \<Rightarrow> (py_exn + string option) \<times> app_state" where
  "read_file e file_path s =
     (case read_result e file_path of
        Content text \<Rightarrow> (Inr (Some text), s)
      | ReadError FileNotFoundError \<Rightarrow> (Inr None, log_append (''File not found: '' @ file_path) s)
      | ReadError PermissionError \<Rightarrow> (Inr None, log_append (''Permission denied: '' @ file_path) s)
      | ReadError (OSError msg) \<Rightarrow> (Inr None, log_append (''Error reading file: '' @ msg) s)
      | DecodeError \<Rightarrow> (Inl UnicodeDecodeError, s))"

text \<open>
  \<open>f.write(x)\<close> on the text file: \<open>x\<close> must be a \<open>str\<close>; for \<open>None\<close> the call raises
  \<open>TypeError\<close> before it touches the file. Otherwise the text joins the buffered
  stream, and the call returns or raises as the environment says; when it raises, part of
  the stream, its own text included, may or may not have reached the disk.
\<close>

definition file_write :: "env \<Rightarrow> string option \<Rightarrow> out_file \<Rightarrow> (py_exn + unit) \<times> out_file" where
  "file_write e x f =
     (case x of
        None \<Rightarrow> (Inl TypeError, f)
      | Some text \<Rightarrow>
          (case write_result e (writes f) of
             None \<Rightarrow> (Inr (), f\<lparr>written := written f @ text, writes := Suc (writes f)\<rparr>)
           | Some err \<Rightarrow>
               (Inl (OSErr err),
                f\<lparr>written := written f @ text, writes := Suc (writes f), failed := True\<rparr>)))"

text \<open>
  \<open>f.close()\<close>, which the \<open>with\<close> statement calls when its body ends: it empties
  the buffer and closes the file, or raises.
\<close>

definition file_close :: "env \<Rightarrow> out_file \<Rightarrow> os_error option \<times> out_file" where
  "file_close e f =
     (case close_result e of
        None \<Rightarrow> (None, f)
      | Some err \<Rightarrow> (Some err, f\<lparr>failed := True\<rparr>))"

text \<open>
  The text in the destination file after it was closed. When no call on the file raised,
  it is everything handed to \<open>write\<close>. When a \<open>write\<close> or the \<open>close\<close> raised, it
  is an initial part of that text, cut where the environment says: nothing is removed or
  rewritten afterwards.
\<close>

definition on_disk :: "env \<Rightarrow> out_file \<Rightarrow> string" where
  "on_disk e f = (if failed f then take (flushed e) (written f) else written f)"

text \<open>The separator of \<open>combine_files\<close>, as the source spells it.\<close>

definition seperator :: string where
  "seperator = ''************************************************************************\<newline>''"

text \<open>
  The \<open>for\<close> loop of \<open>combine_files\<close> over the paths still to do. An exception raised by a
  call ends the loop; the result is that exception (\<open>None\<close> when the loop ran to its end),
  the state and the file at that moment.
\<close>

fun combine_loop :: "env \<Rightarrow> string list \<Rightarrow> app_state \<Rightarrow> out_file \<Rightarrow> py_exn option \<times> app_state \<times> out_file" where
  "combine_loop e [] s f = (None, s, f)"
| "combine_loop e (file_path # rest) s f =
     (case read_file e file_path s of
        (Inl x, s1) \<Rightarrow> (Some x, s1, f)
      | (Inr content, s1) \<Rightarrow>
          (case file_write e (Some (seperator @ file_path @ ''\<newline>'' @ seperator)) f of
             (Inl x, f1) \<Rightarrow> (Some x, s1, f1)
           | (Inr _, f1) \<Rightarrow>
               (case file_write e content f1 of
                  (Inl x, f2) \<Rightarrow> (Some x, s1, f2)
                | (Inr _, f2) \<Rightarrow>
                    (case file_write e (Some ''\<newline>\<newline>'') f2 of
                       (Inl x, f3) \<Rightarrow> (Some x, s1, f3)
                     | (Inr _, f3) \<Rightarrow> combine_loop e rest s1 f3))))"

text \<open>The three \<open>except\<close> clauses of \<open>combine_files\<close>: one log line each.\<close>

definition save_error_line :: "os_error \<Rightarrow> string \<Rightarrow> string" where
  "save_error_line err save_file =
     (case err of
        FileNotFoundError \<Rightarrow> ''Destination file not found: '' @ save_file
      | PermissionError \<Rightarrow> ''Permission denied for destination file: '' @ save_file
      | OSError msg \<Rightarrow> ''Error saving combined file: '' @ msg)"

text \<open>
  \<open>combine_files\<close>. The \<open>with\<close> statement closes the file when its body ends, also when
  the body ends by an exception; an \<open>OSError\<close> raised by closing takes the place of the
  exception under way. An \<open>OSError\<close> that reaches the \<open>try\<close> is logged and ends the method
  normally; any other exception leaves the method.
\<close>

definition combine_files :: "env \<Rightarrow> app_state \<Rightarrow> combine_result" where
  "combine_files e s =
     (let save_file = save_dialog e (offered_path e s) in
      if save_file = [] then \<lparr>raised = None, saved = None, after = s\<rparr>
      else
        let s0 = s\<lparr>last_directory := rsplit_head save_file\<rparr> in
        (case open_result e save_file of
           Some err \<Rightarrow>
             \<lparr>raised = None, saved = None, after = log_append (save_error_line err save_file) s0\<rparr>
         | None \<Rightarrow>
             (case combine_loop e (file_list s0) s0 \<lparr>written = [], writes = 0, failed = False\<rparr> of
                (None, s1, f) \<Rightarrow>
                  (let s2 = log_append ''Files combined successfully.'' s1 in
                   case file_close e f of
                     (None, f') \<Rightarrow>
                       \<lparr>raised = None, saved = Some (on_disk e f'),
                        after = log_append (''Combined file saved as: '' @ save_file) s2\<rparr>
                   | (Some err, f') \<Rightarrow>
                       \<lparr>raised = None, saved = Some (on_disk e f'),
                        after = log_append (save_error_line err save_file) s2\<rparr>)
              | (Some x, s1, f) \<Rightarrow>
                  (case file_close e f of
                     (closing, f') \<Rightarrow>
                       (case (case closing of None \<Rightarrow> x | Some err \<Rightarrow> OSErr err) of
                          OSErr err \<Rightarrow>
                            \<lparr>raised = None, saved = Some (on_disk e f'),
                             after = log_append (save_error_line err save_file) s1\<rparr>
                        | x' \<Rightarrow> \<lparr>raised = Some x', saved = Some (on_disk e f'), after = s1\<rparr>)))))"

section \<open>The output format, as specified\<close>

text \<open>
  The specified block of one file: a separator line of 72 asterisks and a line break, the
  path and a line break, the separator line again, the content, two line breaks.
\<close>

definition separator_line :: string where
  "separator_line = replicate 72 CHR ''*'' @ [CHR 0x0A]"

definition block :: "string \<Rightarrow> string \<Rightarrow> string" where
  "block path text =
     separator_line @ path @ [CHR 0x0A] @ separator_line @ text @ [CHR 0x0A, CHR 0x0A]"

text \<open>The text that reading a path yields in an environment, empty when reading fails.\<close>

definition content_of :: "env \<Rightarrow> string \<Rightarrow> string" where
  "content_of e path = (case read_result e path of Content text \<Rightarrow> text | _ \<Rightarrow> [])"

text \<open>
  The content section of the block of a path: what stands between the header (separator
  line, path line, separator line) and the two line breaks that end the block.
\<close>

definition content_section :: "string \<Rightarrow> string \<Rightarrow> string" where
  "content_section path blk =
     (let header = separator_line @ path @ [CHR 0x0A] @ separator_line
      in take (length blk - length header - 2) (drop (length header) blk))"

section \<open>Concrete environments\<close>

text \<open>
  An environment for the concrete instances below: \<open>/tmp/a.txt\<close> holds \<open>hello\<close>,
  \<open>/tmp/x.txt\<close> holds two lines, no other file exists; the dialog answers
  \<open>/tmp/out.txt\<close>, and the destination opens, takes every write and closes. (Were
  a call on the destination to raise, its first 84 characters would be in the file.)
\<close>

definition demo_env :: env where
  "demo_env =
     \<lparr>now = \<lparr>year = 2024, month = 10, day = 18\<rparr>,
      save_dialog = (\<lambda>offered. ''/tmp/out.txt''),
      read_result = (\<lambda>path.
         if path = ''/tmp/a.txt'' then Content ''hello''
         else if path = ''/tmp/x.txt'' then Content ''foo\<newline>bar''
         else ReadError FileNotFoundError),
      open_result = (\<lambda>path. None),
      write_result = (\<lambda>k. None),
      close_result = None,
      flushed = 84\<rparr>"

text \<open>
  The same environment with a destination that cannot be opened, with a destination whose
  \<open>k\<close>-th write raises, and with a destination that takes every write and raises when
  it is closed.
\<close>

definition locked_env :: env where
  "locked_env = demo_env\<lparr>open_result := (\<lambda>path. Some PermissionError)\<rparr>"

definition failing_write_env :: "nat \<Rightarrow> env" where
  "failing_write_env k =
     demo_env\<lparr>write_result := (\<lambda>j. if j = k then Some (OSError ''No space left on device'') else None)\<rparr>"

definition failing_close_env :: env where
  "failing_close_env = demo_env\<lparr>close_result := Some (OSError ''No space left on device'')\<rparr>"

section \<open>Properties of the file list\<close>

lemma file_list_log_append [simp]: "file_list (log_append line s) = file_list s"
  by (simp add: log_append_def)

lemma file_list_populate_table [simp]: "file_list (populate_table s) = file_list s"
  by (simp add: populate_table_def)

lemma fold_append_row: "fold (\<lambda>x rows. rows @ [g x]) xs ys = ys @ map g xs"
  by (induction xs arbitrary: ys) simp_all

text \<open>After \<open>populate_table\<close> the table has one row per entry of the list, in order.\<close>

lemma file_table_populate_table:
  "file_table (populate_table s) = map (\<lambda>file. (split_last file, file)) (file_list s)"
  by (simp add: populate_table_def fold_append_row)

lemma file_list_add_file [simp]: "file_list (add_file file s) = file_list s @ [file]"
  by (simp add: add_file_def)

lemma file_list_fold_add_file: "file_list (fold add_file files s) = file_list s @ files"
  by (induction files arbitrary: s) simp_all

lemma file_list_add_files: "file_list (add_files files s) = file_list s @ files"
  by (cases files) (simp_all add: add_files_def file_list_fold_add_file)

text \<open>
  Claim C5. Appending a path puts it at the end of the list, after the entries already
  there and whether or not it is among them, so the length grows by one; paths appended
  one after the other, or picked in one dialog, end up in the order given, and from the
  empty list the result is exactly that list of paths. Both \<open>add_file\<close> and
  \<open>add_files\<close> are total and look at no file: no path makes them fail.
\<close>

theorem append_at_end:
  "file_list (add_file path s) = file_list s @ [path]
   \<and> length (file_list (add_file path s)) = Suc (length (file_list s))
   \<and> count_list (file_list (add_file path s)) path = Suc (count_list (file_list s) path)
   \<and> file_list (fold add_file paths s) = file_list s @ paths
   \<and> file_list (add_files paths s) = file_list s @ paths
   \<and> file_list (add_files paths (s\<lparr>file_list := []\<rparr>)) = paths
   \<and> length (file_list (add_files paths (s\<lparr>file_list := []\<rparr>))) = length paths"
  by (simp add: file_list_add_files file_list_fold_add_file)

subsection \<open>Reordering\<close>

lemma py_index_less: "py_index xs i = Some k \<Longrightarrow> k < length xs"
  by (auto simp: py_index_def Let_def split: if_splits)

lemma py_index_in_range: "0 \<le> i \<Longrightarrow> i < int (length xs) \<Longrightarrow> py_index xs i = Some (nat i)"
  by (simp add: py_index_def Let_def)

lemma py_index_too_big: "int (length xs) \<le> i \<Longrightarrow> py_index xs i = None"
  by (simp add: py_index_def Let_def)

lemma swap_items_positions:
  assumes "swap_items xs a b = Inr ys"
  obtains t sl where "t < length xs" and "sl < length xs"
    and "ys = (xs[sl := xs ! t])[t := xs ! sl]"
proof -
  from assms obtain t sl where "py_index xs b = Some t" and "py_index xs a = Some sl"
    and "ys = (xs[sl := xs ! t])[t := xs ! sl]"
    by (auto simp: swap_items_def split: option.splits)
  then show ?thesis
    using that by (auto dest: py_index_less)
qed

lemma swap_items_mset: "swap_items xs a b = Inr ys \<Longrightarrow> mset ys = mset xs"
  by (erule swap_items_positions) (simp add: mset_swap)

lemma swap_items_length: "swap_items xs a b = Inr ys \<Longrightarrow> length ys = length xs"
  by (erule swap_items_positions) simp

lemma swap_items_in_range:
  "0 \<le> a \<Longrightarrow> a < int (length xs) \<Longrightarrow> 0 \<le> b \<Longrightarrow> b < int (length xs) \<Longrightarrow>
   swap_items xs a b = Inr ((xs[nat a := xs ! nat b])[nat b := xs ! nat a])"
  by (simp add: swap_items_def py_index_in_range)

lemma swap_items_too_big: "int (length xs) \<le> b \<Longrightarrow> swap_items xs a b = Inl IndexError"
  by (simp add: swap_items_def py_index_too_big)

lemma dropEvent_in_range:
  assumes "0 \<le> i" "i < int (length (file_list s))" "0 \<le> j" "j < int (length (file_list s))" "j \<noteq> i"
  shows "dropEvent True i j s =
     (None, populate_table (s\<lparr>file_list := (file_list s)[nat i := file_list s ! nat j,
                                                            nat j := file_list s ! nat i]\<rparr>))"
  using assms by (simp add: dropEvent_def swap_items_in_range)

lemma table_in_step_populate_table: "table_in_step (populate_table s)"
  by (simp add: table_in_step_def file_table_populate_table)

lemma table_in_step_add_files: "table_in_step s \<Longrightarrow> table_in_step (add_files files s)"
  by (cases files) (simp_all add: add_files_def table_in_step_populate_table)

lemma table_in_step_dropEvent:
  "table_in_step s \<Longrightarrow> table_in_step (snd (dropEvent from_table selected_row target_row s))"
  by (simp add: dropEvent_def table_in_step_populate_table split: sum.splits)

text \<open>
  The guard of \<open>dropEvent\<close> tests only \<open>target_row >= 0\<close>; the upper bound is the table's.
  A row past the end, which the table never reports, would make \<open>file_list[target_row]\<close>
  raise \<open>IndexError\<close> before anything is stored.
\<close>

lemma dropEvent_past_end:
  assumes "0 \<le> selected_row" "selected_row < int (length (file_list s))"
    and "int (length (file_list s)) \<le> target_row"
  shows "dropEvent True selected_row target_row s = (Some IndexError, s)"
proof -
  from assms have "target_row \<ge> 0 \<and> target_row \<noteq> selected_row"
    by simp
  then show ?thesis
    by (simp add: dropEvent_def swap_items_too_big [OF assms(3)])
qed



text \<open>
  Claim C4. With both rows in range and different, the same drop done twice gives back
  the original list, and neither call raises.
\<close>

theorem move_twice:
  assumes "0 \<le> i" "i < int (length (file_list s))" "0 \<le> j" "j < int (length (file_list s))" "j \<noteq> i"
  shows "fst (dropEvent True i j s) = None
     \<and> fst (dropEvent True i j (snd (dropEvent True i j s))) = None
     \<and> file_list (snd (dropEvent True i j (snd (dropEvent True i j s)))) = file_list s"
proof -
  let ?xs = "file_list s"
  let ?ys = "?xs[nat i := ?xs ! nat j, nat j := ?xs ! nat i]"
  let ?s1 = "populate_table (s\<lparr>file_list := ?ys\<rparr>)"
  have ni: "nat i < length ?xs" and nj: "nat j < length ?xs" and ne: "nat i \<noteq> nat j"
    using assms by auto
  have 1: "dropEvent True i j s = (None, ?s1)"
    using assms by (rule dropEvent_in_range)
  have restored: "?ys[nat i := ?ys ! nat j, nat j := ?ys ! nat i] = ?xs"
    using ni nj ne by (simp add: list_eq_iff_nth_eq nth_list_update)
  have "dropEvent True i j ?s1 =
      (None, populate_table (?s1\<lparr>file_list := (file_list ?s1)[nat i := file_list ?s1 ! nat j,
                                                               nat j := file_list ?s1 ! nat i]\<rparr>))"
    using assms by (intro dropEvent_in_range) simp_all
  then show ?thesis
    using restored by (simp add: 1)
qed

theorem move_twice_witness:
  "fst (dropEvent True 0 1 two_files) = None
   \<and> fst (dropEvent True 0 1 (snd (dropEvent True 0 1 two_files))) = None
   \<and> file_list (snd (dropEvent True 0 1 (snd (dropEvent True 0 1 two_files)))) =
       [''/tmp/a.txt'', ''/tmp/b.txt'']"
  using move_twice [of 0 two_files 1]
  by (simp add: two_files_def)

text \<open>
  Claim C10. Whatever the toolkit passes in, \<open>dropEvent\<close> leaves the length of the list and
  the multiset of its entries as they were: the list is either untouched or has the
  entries of two of its positions exchanged.
\<close>

theorem move_permutes:
  "mset (file_list (snd (dropEvent from_table selected_row target_row s))) = mset (file_list s)
   \<and> length (file_list (snd (dropEvent from_table selected_row target_row s))) = length (file_list s)
   \<and> (file_list (snd (dropEvent from_table selected_row target_row s)) = file_list s
      \<or> (\<exists>a b. a < length (file_list s) \<and> b < length (file_list s)
            \<and> file_list (snd (dropEvent from_table selected_row target_row s)) =
                (file_list s)[a := file_list s ! b, b := file_list s ! a]))"
proof (cases "swap_items (file_list s) selected_row target_row")
  case (Inl x)
  then show ?thesis
    by (simp add: dropEvent_def)
next
  case (Inr ys)
  then obtain t sl where "t < length (file_list s)" and "sl < length (file_list s)"
    and "ys = (file_list s)[sl := file_list s ! t, t := file_list s ! sl]"
    by (rule swap_items_positions)
  with Inr show ?thesis
    by (auto simp: dropEvent_def swap_items_mset)
qed

section \<open>Properties of the combiner\<close>

lemma seperator_eq: "seperator = separator_line"
  unfolding seperator_def separator_line_def by code_simp

lemma length_separator_line: "length separator_line = 73"
  by (simp add: separator_line_def)

lemma read_file_Content:
  "read_result e p = Content t \<Longrightarrow> read_file e p s = (Inr (Some t), s)"
  by (simp add: read_file_def)

lemma file_write_ok:
  "write_result e (writes f) = None \<Longrightarrow>
   file_write e (Some t) f = (Inr (), f\<lparr>written := written f @ t, writes := Suc (writes f)\<rparr>)"
  by (simp add: file_write_def)

lemma file_write_fails:
  "write_result e (writes f) = Some err \<Longrightarrow>
   file_write e (Some t) f =
     (Inl (OSErr err), f\<lparr>written := written f @ t, writes := Suc (writes f), failed := True\<rparr>)"
  by (simp add: file_write_def)

lemma file_write_None: "file_write e None f = (Inl TypeError, f)"
  by (simp add: file_write_def)

lemma loop_step_ok:
  assumes "read_result e p = Content t"
    and "write_result e (writes f) = None"
    and "write_result e (Suc (writes f)) = None"
    and "write_result e (Suc (Suc (writes f))) = None"
  shows "combine_loop e (p # rest) s f =
         combine_loop e rest s (f\<lparr>written := written f @ block p t, writes := writes f + 3\<rparr>)"
  using assms
  by (simp add: read_file_Content file_write_ok block_def seperator_eq numeral_3_eq_3)

lemma loop_prefix_ok:
  assumes "\<forall>q\<in>set pre. \<exists>t. read_result e q = Content t"
    and "\<forall>j. writes f \<le> j \<and> j < writes f + 3 * length pre \<longrightarrow> write_result e j = None"
  shows "combine_loop e (pre @ qs) s f =
         combine_loop e qs s
           (f\<lparr>written := written f @ concat (map (\<lambda>q. block q (content_of e q)) pre),
              writes := writes f + 3 * length pre\<rparr>)"
  using assms
proof (induction pre arbitrary: f)
  case Nil
  then show ?case by simp
next
  case (Cons p ps)
  from Cons.prems(1) obtain t where t: "read_result e p = Content t"
    by auto
  have w: "write_result e (writes f) = None" "write_result e (Suc (writes f)) = None"
    "write_result e (Suc (Suc (writes f))) = None"
    using Cons.prems(2) by simp_all
  let ?f = "f\<lparr>written := written f @ block p t, writes := writes f + 3\<rparr>"
  have step: "combine_loop e (p # (ps @ qs)) s f = combine_loop e (ps @ qs) s ?f"
    using t w by (rule loop_step_ok)
  have ih: "combine_loop e (ps @ qs) s ?f = combine_loop e qs s
           (?f\<lparr>written := written ?f @ concat (map (\<lambda>q. block q (content_of e q)) ps),
              writes := writes ?f + 3 * length ps\<rparr>)"
    using Cons.prems by (intro Cons.IH) auto
  have rec: "?f\<lparr>written := written ?f @ concat (map (\<lambda>q. block q (content_of e q)) ps),
              writes := writes ?f + 3 * length ps\<rparr> =
           f\<lparr>written := written f @ concat (map (\<lambda>q. block q (content_of e q)) (p # ps)),
              writes := writes f + 3 * length (p # ps)\<rparr>"
    by (simp add: content_of_def t)
  show ?case
    unfolding append_Cons step ih rec ..
qed

lemma loop_all_ok:
  assumes "\<forall>q\<in>set ps. \<exists>t. read_result e q = Content t"
    and "\<forall>j < 3 * length ps. write_result e j = None"
  shows "combine_loop e ps s \<lparr>written = [], writes = 0, failed = False\<rparr> =
         (None, s, \<lparr>written = concat (map (\<lambda>q. block q (content_of e q)) ps),
                    writes = 3 * length ps, failed = False\<rparr>)"
  using loop_prefix_ok [of ps e "\<lparr>written = [], writes = 0, failed = False\<rparr>" "[]" s] assms
  by simp

text \<open>
  A run in which every file reads and every write returns, by the way the file closes:
  closed without error it holds all the blocks; when closing raises, the success line is
  already in the log, the error line follows, and the file holds an initial part of the
  blocks.
\<close>

lemma combine_files_readable:
  assumes "save_dialog e (offered_path e s) \<noteq> []"
    and "open_result e (save_dialog e (offered_path e s)) = None"
    and "\<forall>p\<in>set (file_list s). \<exists>text. read_result e p = Content text"
    and "\<forall>k < 3 * length (file_list s). write_result e k = None"
    and "close_result e = None"
  shows "saved (combine_files e s) =
           Some (concat (map (\<lambda>p. block p (content_of e p)) (file_list s)))"
    and "raised (combine_files e s) = None"
  using assms
  by (simp_all add: combine_files_def Let_def loop_all_ok file_close_def on_disk_def)

lemma combine_files_close_fails:
  assumes "save_dialog e (offered_path e s) = save_file" and "save_file \<noteq> []"
    and "open_result e save_file = None"
    and "\<forall>p\<in>set (file_list s). \<exists>text. read_result e p = Content text"
    and "\<forall>k < 3 * length (file_list s). write_result e k = None"
    and "close_result e = Some err"
  shows "combine_files e s =
     \<lparr>raised = None,
      saved = Some (take (flushed e) (concat (map (\<lambda>p. block p (content_of e p)) (file_list s)))),
      after = log_append (save_error_line err save_file)
                (log_append ''Files combined successfully.''
                   (s\<lparr>last_directory := rsplit_head save_file\<rparr>))\<rparr>"
  using assms
  by (simp add: combine_files_def Let_def loop_all_ok file_close_def on_disk_def)

lemma content_section_block: "content_section path (block path text) = text"
  by (simp add: content_section_def block_def Let_def)

lemma read_file_no_decode_error:
  assumes "read_result e p \<noteq> DecodeError"
  shows "\<exists>c. read_file e p s = (Inr c, snd (read_file e p s))"
proof (cases "read_result e p")
  case (Content t)
  then show ?thesis by (simp add: read_file_def)
next
  case (ReadError err)
  then show ?thesis by (cases err) (simp_all add: read_file_def)
next
  case DecodeError
  with assms show ?thesis by simp
qed

lemma loop_step_write_fails:
  assumes rd: "m = 0 \<and> read_result e p \<noteq> DecodeError \<or> m < 3 \<and> read_result e p = Content text"
    and ok: "\<forall>j. writes f \<le> j \<and> j < writes f + m \<longrightarrow> write_result e j = None"
    and bad: "write_result e (writes f + m) = Some err"
  shows "combine_loop e (p # rest) s f =
     (Some (OSErr err), snd (read_file e p s),
      f\<lparr>written := written f @ concat (take (Suc m) [separator_line @ p @ [CHR 0x0A] @ separator_line,
                                                        text, [CHR 0x0A, CHR 0x0A]]),
        writes := Suc (writes f + m), failed := True\<rparr>)"
proof -
  consider (header) "m = 0" "read_result e p \<noteq> DecodeError"
    | (content) "m = 1" "read_result e p = Content text"
    | (blank) "m = 2" "read_result e p = Content text"
    using rd by (cases m) (auto simp: less_Suc_eq numeral_3_eq_3)
  then show ?thesis
  proof cases
    case header
    let ?f = "f\<lparr>written := written f @ separator_line @ p @ [CHR 0x0A] @ separator_line,
                writes := Suc (writes f), failed := True\<rparr>"
    from header(2) obtain c where c: "read_file e p s = (Inr c, snd (read_file e p s))"
      using read_file_no_decode_error by blast
    have "combine_loop e (p # rest) s f =
        (case read_file e p s of
           (Inl x, s1) \<Rightarrow> (Some x, s1, f)
         | (Inr content, s1) \<Rightarrow> (Some (OSErr err), s1, ?f))"
      using bad header(1)
      by (simp add: file_write_fails seperator_eq split: prod.splits sum.splits)
    also have "\<dots> = (Some (OSErr err), snd (read_file e p s), ?f)"
      by (subst c) simp
    finally show ?thesis
      using header(1) by simp
  next
    case content
    have w0: "write_result e (writes f) = None"
      using ok content(1) by simp
    show ?thesis
      using bad content w0
      by (simp add: read_file_Content file_write_ok file_write_fails seperator_eq)
  next
    case blank
    have w0: "write_result e (writes f) = None" and w1: "write_result e (Suc (writes f)) = None"
      using ok blank(1) by simp_all
    show ?thesis
      using bad blank w0 w1
      by (simp add: read_file_Content file_write_ok file_write_fails seperator_eq numeral_2_eq_2)
  qed
qed

lemma loop_write_fails:
  assumes "\<forall>q\<in>set pre. \<exists>t. read_result e q = Content t"
    and rd: "m = 0 \<and> read_result e p \<noteq> DecodeError \<or> m < 3 \<and> read_result e p = Content text"
    and ok: "\<forall>j < 3 * length pre + m. write_result e j = None"
    and bad: "write_result e (3 * length pre + m) = Some err"
  shows "combine_loop e (pre @ p # rest) s \<lparr>written = [], writes = 0, failed = False\<rparr> =
     (Some (OSErr err), snd (read_file e p s),
      \<lparr>written = concat (map (\<lambda>q. block q (content_of e q)) pre)
                  @ concat (take (Suc m) [separator_line @ p @ [CHR 0x0A] @ separator_line,
                                           text, [CHR 0x0A, CHR 0x0A]]),
       writes = Suc (3 * length pre + m), failed = True\<rparr>)"
proof -
  let ?f = "\<lparr>written = concat (map (\<lambda>q. block q (content_of e q)) pre),
             writes = 3 * length pre, failed = False\<rparr>"
  have "combine_loop e (pre @ p # rest) s \<lparr>written = [], writes = 0, failed = False\<rparr> =
        combine_loop e (p # rest) s ?f"
    using loop_prefix_ok [of pre e "\<lparr>written = [], writes = 0, failed = False\<rparr>" "p # rest" s]
      assms(1) ok
    by simp
  also have "\<dots> = (Some (OSErr err), snd (read_file e p s),
      ?f\<lparr>written := written ?f @ concat (take (Suc m) [separator_line @ p @ [CHR 0x0A] @ separator_line,
                                                        text, [CHR 0x0A, CHR 0x0A]]),
        writes := Suc (writes ?f + m), failed := True\<rparr>)"
    using rd ok bad by (intro loop_step_write_fails) simp_all
  finally show ?thesis
    by simp
qed

lemma log_textbox_read_file:
  "log_textbox (snd (read_file e p (s\<lparr>last_directory := d\<rparr>))) = log_textbox (snd (read_file e p s))"
  by (simp add: read_file_def log_append_def split: read_outcome.splits os_error.splits)

lemma log_textbox_log_append [simp]: "log_textbox (log_append line s) = log_textbox s @ [line]"
  by (simp add: log_append_def)

text \<open>
  Claim C2. When the dialog names a destination, the destination opens, every listed file
  reads, every write returns and the file closes without error, the destination holds
  exactly the blocks of the listed paths, in list order and with nothing before, between
  or after them; each block is the separator line of 72 asterisks, the path line, the
  separator line, the text read from the file and two line breaks. No exception leaves the
  method. (Texts are Python strings: the encoding to bytes and the platform's line ending
  are below this model.)
\<close>

theorem combine_writes_blocks:
  assumes "save_dialog e (offered_path e s) \<noteq> []"
    and "open_result e (save_dialog e (offered_path e s)) = None"
    and "\<forall>p\<in>set (file_list s). \<exists>text. read_result e p = Content text"
    and "\<forall>k < 3 * length (file_list s). write_result e k = None"
    and "close_result e = None"
  shows "saved (combine_files e s) =
           Some (concat (map (\<lambda>p. block p (content_of e p)) (file_list s)))
       \<and> raised (combine_files e s) = None"
  using assms by (simp add: combine_files_readable)

theorem combine_writes_blocks_witness:
  "saved (combine_files demo_env (two_files\<lparr>file_list := [''/tmp/x.txt'', ''/tmp/a.txt'']\<rparr>)) =
     Some (block ''/tmp/x.txt'' ''foo\<newline>bar'' @ block ''/tmp/a.txt'' ''hello'')
   \<and> raised (combine_files demo_env (two_files\<lparr>file_list := [''/tmp/x.txt'', ''/tmp/a.txt'']\<rparr>)) = None"
proof -
  let ?s = "two_files\<lparr>file_list := [''/tmp/x.txt'', ''/tmp/a.txt'']\<rparr>"
  have 1: "save_dialog demo_env (offered_path demo_env ?s) \<noteq> []"
    by (simp add: demo_env_def)
  have 2: "open_result demo_env (save_dialog demo_env (offered_path demo_env ?s)) = None"
    by (simp add: demo_env_def)
  have 3: "\<forall>p\<in>set (file_list ?s). \<exists>text. read_result demo_env p = Content text"
    by (simp add: demo_env_def)
  have 4: "\<forall>k < 3 * length (file_list ?s). write_result demo_env k = None"
    by (simp add: demo_env_def)
  have 5: "close_result demo_env = None"
    by (simp add: demo_env_def)
  have c: "content_of demo_env ''/tmp/x.txt'' = ''foo\<newline>bar''"
    "content_of demo_env ''/tmp/a.txt'' = ''hello''"
    by (simp_all add: content_of_def demo_env_def)
  show ?thesis
    using combine_writes_blocks [OF 1 2 3 4 5] by (simp add: c)
qed

text \<open>
  Claim C7. With an empty list the destination receives nothing: it is created empty, or
  not opened at all when the dialog is cancelled or the destination cannot be opened.
\<close>

theorem combine_empty:
  assumes "file_list s = []"
  shows "saved (combine_files e s) =
           (if save_dialog e (offered_path e s) = []
               \<or> open_result e (save_dialog e (offered_path e s)) \<noteq> None
            then None else Some [])
       \<and> raised (combine_files e s) = None"
  using assms
  by (auto simp: combine_files_def Let_def file_close_def on_disk_def split: option.splits)

theorem combine_empty_witness:
  "saved (combine_files demo_env (two_files\<lparr>file_list := []\<rparr>)) = Some []
   \<and> raised (combine_files demo_env (two_files\<lparr>file_list := []\<rparr>)) = None"
  using combine_empty [of "two_files\<lparr>file_list := []\<rparr>" demo_env]
  by (simp add: demo_env_def)

text \<open>
  Claim C8. For a list of one readable file, with a destination that takes the writes and
  closes without error, the destination is the block of that file, and the content
  section of the block is the text that was read, unchanged; the instance is the two-line
  text of the claim.
\<close>

theorem combine_copies_content:
  assumes "file_list s = [x]"
    and "read_result e x = Content text"
    and "save_dialog e (offered_path e s) \<noteq> []"
    and "open_result e (save_dialog e (offered_path e s)) = None"
    and "\<forall>k < 3. write_result e k = None"
    and "close_result e = None"
  shows "saved (combine_files e s) = Some (block x text)
       \<and> map_option (content_section x) (saved (combine_files e s)) = Some text"
proof -
  have "saved (combine_files e s) =
           Some (concat (map (\<lambda>p. block p (content_of e p)) (file_list s)))"
    using assms by (intro combine_files_readable) simp_all
  then show ?thesis
    using assms by (simp add: content_of_def content_section_block)
qed

theorem combine_copies_content_witness:
  "saved (combine_files demo_env (two_files\<lparr>file_list := [''/tmp/x.txt'']\<rparr>)) =
     Some (block ''/tmp/x.txt'' ''foo\<newline>bar'')
   \<and> map_option (content_section ''/tmp/x.txt'')
        (saved (combine_files demo_env (two_files\<lparr>file_list := [''/tmp/x.txt'']\<rparr>))) =
      Some ''foo\<newline>bar''"
proof -
  let ?s = "two_files\<lparr>file_list := [''/tmp/x.txt'']\<rparr>"
  have 1: "file_list ?s = [''/tmp/x.txt'']"
    by simp
  have 2: "read_result demo_env ''/tmp/x.txt'' = Content ''foo\<newline>bar''"
    by (simp add: demo_env_def)
  have 3: "save_dialog demo_env (offered_path demo_env ?s) \<noteq> []"
    by (simp add: demo_env_def)
  have 4: "open_result demo_env (save_dialog demo_env (offered_path demo_env ?s)) = None"
    by (simp add: demo_env_def)
  have 5: "\<forall>k < 3. write_result demo_env k = None"
    by (simp add: demo_env_def)
  have 6: "close_result demo_env = None"
    by (simp add: demo_env_def)
  show ?thesis
    using 1 2 3 4 5 6 by (rule combine_copies_content)
qed

subsection \<open>Failures of the destination\<close>

lemma cut_after_path_line:
  "take 84 (block ''/tmp/a.txt'' body @ rest) = separator_line @ ''/tmp/a.txt'' @ [CHR 0x0A]"
  by (simp add: block_def length_separator_line)

text \<open>
  Claim C6. Let the dialog name a destination. If the destination cannot be opened, the
  method ends normally with one log line for that error, the destination untouched and no
  file read. If a write raises, on the block of \<open>p\<close> after the complete blocks of the
  files before it (\<open>m\<close> says which of the three writes of the block it is), the method
  ends normally and the log gains one line for the error after whatever reading \<open>p\<close> had
  logged: nothing more is read or written. If every write returns and only closing the
  file raises, the success line is already logged and one line for the error follows. In
  both cases the file is left as the failure found it: it holds an initial part of the
  text handed over until then, cut where the disk took its last character, and nothing
  is removed. (Should closing fail after a write has, the one line logged is for the later
  error.)
\<close>

theorem sink_failure_aborts:
  assumes dialog: "save_dialog e (offered_path e s) = save_file" "save_file \<noteq> []"
  shows "(open_result e save_file = Some err \<longrightarrow>
            combine_files e s =
              \<lparr>raised = None, saved = None,
               after = log_append (save_error_line err save_file)
                         (s\<lparr>last_directory := rsplit_head save_file\<rparr>)\<rparr>)
    \<and> (open_result e save_file = None \<and> file_list s = pre @ p # rest
        \<and> (\<forall>q\<in>set pre. \<exists>t. read_result e q = Content t)
        \<and> (m = 0 \<and> read_result e p \<noteq> DecodeError \<or> m < 3 \<and> read_result e p = Content text)
        \<and> (\<forall>j < 3 * length pre + m. write_result e j = None)
        \<and> write_result e (3 * length pre + m) = Some err \<longrightarrow>
            raised (combine_files e s) = None
          \<and> saved (combine_files e s) =
              Some (take (flushed e)
                     (concat (map (\<lambda>q. block q (content_of e q)) pre)
                      @ concat (take (Suc m) [separator_line @ p @ [CHR 0x0A] @ separator_line,
                                              text, [CHR 0x0A, CHR 0x0A]])))
          \<and> log_textbox (after (combine_files e s)) =
              log_textbox (snd (read_file e p s))
              @ [save_error_line (case close_result e of None \<Rightarrow> err | Some c \<Rightarrow> c) save_file]
          \<and> (read_result e p = Content text \<longrightarrow>
               log_textbox (after (combine_files e s)) =
                 log_textbox s
                 @ [save_error_line (case close_result e of None \<Rightarrow> err | Some c \<Rightarrow> c) save_file]))
    \<and> (open_result e save_file = None
        \<and> (\<forall>q\<in>set (file_list s). \<exists>t. read_result e q = Content t)
        \<and> (\<forall>j < 3 * length (file_list s). write_result e j = None)
        \<and> close_result e = Some err \<longrightarrow>
            raised (combine_files e s) = None
          \<and> saved (combine_files e s) =
              Some (take (flushed e) (concat (map (\<lambda>q. block q (content_of e q)) (file_list s))))
          \<and> log_textbox (after (combine_files e s)) =
              log_textbox s @ [''Files combined successfully.'', save_error_line err save_file])"
proof (intro conjI impI)
  assume "open_result e save_file = Some err"
  then show "combine_files e s =
              \<lparr>raised = None, saved = None,
               after = log_append (save_error_line err save_file)
                         (s\<lparr>last_directory := rsplit_head save_file\<rparr>)\<rparr>"
    using dialog by (simp add: combine_files_def)
next
  assume h: "open_result e save_file = None \<and> file_list s = pre @ p # rest
        \<and> (\<forall>q\<in>set pre. \<exists>t. read_result e q = Content t)
        \<and> (m = 0 \<and> read_result e p \<noteq> DecodeError \<or> m < 3 \<and> read_result e p = Content text)
        \<and> (\<forall>j < 3 * length pre + m. write_result e j = None)
        \<and> write_result e (3 * length pre + m) = Some err"
  let ?s0 = "s\<lparr>last_directory := rsplit_head save_file\<rparr>"
  let ?stream = "concat (map (\<lambda>q. block q (content_of e q)) pre)
                  @ concat (take (Suc m) [separator_line @ p @ [CHR 0x0A] @ separator_line,
                                           text, [CHR 0x0A, CHR 0x0A]])"
  have loop: "combine_loop e (pre @ p # rest) ?s0 \<lparr>written = [], writes = 0, failed = False\<rparr> =
     (Some (OSErr err), snd (read_file e p ?s0),
      \<lparr>written = ?stream, writes = Suc (3 * length pre + m), failed = True\<rparr>)"
    using h loop_write_fails [of pre e m p "text" err rest "?s0"] by simp
  have res: "combine_files e s =
     \<lparr>raised = None,
      saved = Some (take (flushed e) ?stream),
      after = log_append (save_error_line (case close_result e of None \<Rightarrow> err | Some c \<Rightarrow> c) save_file)
                (snd (read_file e p ?s0))\<rparr>"
    using dialog h
    by (simp add: combine_files_def loop file_close_def on_disk_def split: option.splits)
  show "raised (combine_files e s) = None"
    by (simp add: res)
  show "saved (combine_files e s) = Some (take (flushed e) ?stream)"
    by (simp add: res)
  show "log_textbox (after (combine_files e s)) =
              log_textbox (snd (read_file e p s))
              @ [save_error_line (case close_result e of None \<Rightarrow> err | Some c \<Rightarrow> c) save_file]"
    by (simp add: res log_textbox_read_file)
  show "log_textbox (after (combine_files e s)) =
          log_textbox s
          @ [save_error_line (case close_result e of None \<Rightarrow> err | Some c \<Rightarrow> c) save_file]"
    if "read_result e p = Content text"
    using that by (simp add: res read_file_Content)
next
  assume h: "open_result e save_file = None
        \<and> (\<forall>q\<in>set (file_list s). \<exists>t. read_result e q = Content t)
        \<and> (\<forall>j < 3 * length (file_list s). write_result e j = None)
        \<and> close_result e = Some err"
  have res: "combine_files e s =
     \<lparr>raised = None,
      saved = Some (take (flushed e) (concat (map (\<lambda>p. block p (content_of e p)) (file_list s)))),
      after = log_append (save_error_line err save_file)
                (log_append ''Files combined successfully.''
                   (s\<lparr>last_directory := rsplit_head save_file\<rparr>))\<rparr>"
    using dialog h by (intro combine_files_close_fails) simp_all
  show "raised (combine_files e s) = None"
    by (simp add: res)
  show "saved (combine_files e s) =
          Some (take (flushed e) (concat (map (\<lambda>q. block q (content_of e q)) (file_list s))))"
    by (simp add: res)
  show "log_textbox (after (combine_files e s)) =
          log_textbox s @ [''Files combined successfully.'', save_error_line err save_file]"
    by (simp add: res)
qed

theorem sink_failure_aborts_witness:
  "combine_files locked_env two_files =
     \<lparr>raised = None, saved = None,
      after = two_files\<lparr>log_textbox := [''Permission denied for destination file: /tmp/out.txt'']\<rparr>\<rparr>
   \<and> raised (combine_files (failing_write_env 4) (two_files\<lparr>file_list := [''/tmp/a.txt'', ''/tmp/x.txt'']\<rparr>)) = None
   \<and> saved (combine_files (failing_write_env 4) (two_files\<lparr>file_list := [''/tmp/a.txt'', ''/tmp/x.txt'']\<rparr>)) =
       Some (separator_line @ ''/tmp/a.txt'' @ [CHR 0x0A])
   \<and> log_textbox (after (combine_files (failing_write_env 4)
         (two_files\<lparr>file_list := [''/tmp/a.txt'', ''/tmp/x.txt'']\<rparr>))) =
       [''Error saving combined file: No space left on device'']
   \<and> raised (combine_files (failing_write_env 3) two_files) = None
   \<and> saved (combine_files (failing_write_env 3) two_files) =
       Some (separator_line @ ''/tmp/a.txt'' @ [CHR 0x0A])
   \<and> log_textbox (after (combine_files (failing_write_env 3) two_files)) =
       [''File not found: /tmp/b.txt'', ''Error saving combined file: No space left on device'']
   \<and> raised (combine_files failing_close_env (two_files\<lparr>file_list := [''/tmp/a.txt'', ''/tmp/x.txt'']\<rparr>)) = None
   \<and> saved (combine_files failing_close_env (two_files\<lparr>file_list := [''/tmp/a.txt'', ''/tmp/x.txt'']\<rparr>)) =
       Some (separator_line @ ''/tmp/a.txt'' @ [CHR 0x0A])
   \<and> log_textbox (after (combine_files failing_close_env
         (two_files\<lparr>file_list := [''/tmp/a.txt'', ''/tmp/x.txt'']\<rparr>))) =
       [''Files combined successfully.'', ''Error saving combined file: No space left on device'']"
proof -
  let ?s = "two_files\<lparr>file_list := [''/tmp/a.txt'', ''/tmp/x.txt'']\<rparr>"
  let ?err = "OSError ''No space left on device''"
  have a: "content_of (failing_write_env k) ''/tmp/a.txt'' = ''hello''" for k
    by (simp add: content_of_def failing_write_env_def demo_env_def)
  have closing: "close_result (failing_write_env k) = None" for k
    by (simp add: failing_write_env_def demo_env_def)
  have cut: "flushed (failing_write_env k) = 84" "flushed failing_close_env = 84" for k
    by (simp_all add: failing_write_env_def failing_close_env_def demo_env_def)
  have a': "content_of failing_close_env ''/tmp/a.txt'' = ''hello''"
    by (simp add: content_of_def failing_close_env_def demo_env_def)
  have rx: "log_textbox (snd (read_file (failing_write_env k) ''/tmp/x.txt'' ?s)) = []" for k
    by (simp add: read_file_def failing_write_env_def demo_env_def two_files_def)
  have rb: "log_textbox (snd (read_file (failing_write_env k) ''/tmp/b.txt'' two_files)) =
      [''File not found: /tmp/b.txt'']" for k
    by (simp add: read_file_def failing_write_env_def demo_env_def two_files_def log_append_def)
  have empty_log: "log_textbox ?s = []"
    by (simp add: two_files_def)
  have "save_dialog locked_env (offered_path locked_env two_files) = ''/tmp/out.txt''"
    and "''/tmp/out.txt'' \<noteq> []"
    and "open_result locked_env ''/tmp/out.txt'' = Some PermissionError"
    by (simp_all add: locked_env_def demo_env_def)
  then have "combine_files locked_env two_files =
      \<lparr>raised = None, saved = None,
       after = log_append (save_error_line PermissionError ''/tmp/out.txt'')
                 (two_files\<lparr>last_directory := rsplit_head ''/tmp/out.txt''\<rparr>)\<rparr>"
    using sink_failure_aborts [of locked_env two_files "''/tmp/out.txt''" PermissionError]
    by blast
  then have 1: "combine_files locked_env two_files =
     \<lparr>raised = None, saved = None,
      after = two_files\<lparr>log_textbox := [''Permission denied for destination file: /tmp/out.txt'']\<rparr>\<rparr>"
    by (simp add: save_error_line_def log_append_def rsplit_head_def two_files_def)
  have "save_dialog (failing_write_env 4) (offered_path (failing_write_env 4) ?s) = ''/tmp/out.txt''"
    and "''/tmp/out.txt'' \<noteq> []"
    and "open_result (failing_write_env 4) ''/tmp/out.txt'' = None
       \<and> file_list ?s = [''/tmp/a.txt''] @ ''/tmp/x.txt'' # []
       \<and> (\<forall>q\<in>set [''/tmp/a.txt'']. \<exists>t. read_result (failing_write_env 4) q = Content t)
       \<and> (1 = (0::nat) \<and> read_result (failing_write_env 4) ''/tmp/x.txt'' \<noteq> DecodeError
            \<or> 1 < (3::nat) \<and> read_result (failing_write_env 4) ''/tmp/x.txt'' = Content ''foo\<newline>bar'')
       \<and> (\<forall>j < 3 * length [''/tmp/a.txt''] + 1. write_result (failing_write_env 4) j = None)
       \<and> write_result (failing_write_env 4) (3 * length [''/tmp/a.txt''] + 1) = Some ?err"
    by (simp_all add: failing_write_env_def demo_env_def)
  then have "raised (combine_files (failing_write_env 4) ?s) = None
     \<and> saved (combine_files (failing_write_env 4) ?s) =
         Some (take (flushed (failing_write_env 4))
                (concat (map (\<lambda>q. block q (content_of (failing_write_env 4) q)) [''/tmp/a.txt''])
                 @ concat (take (Suc 1) [separator_line @ ''/tmp/x.txt'' @ [CHR 0x0A] @ separator_line,
                                         ''foo\<newline>bar'', [CHR 0x0A, CHR 0x0A]])))
     \<and> log_textbox (after (combine_files (failing_write_env 4) ?s)) =
         log_textbox (snd (read_file (failing_write_env 4) ''/tmp/x.txt'' ?s))
         @ [save_error_line (case close_result (failing_write_env 4) of None \<Rightarrow> ?err | Some c \<Rightarrow> c)
              ''/tmp/out.txt'']"
    using sink_failure_aborts [of "failing_write_env 4" ?s "''/tmp/out.txt''" ?err
        "[''/tmp/a.txt'']" "''/tmp/x.txt''" "[]" 1 "''foo\<newline>bar''"]
    by blast
  then have 2: "raised (combine_files (failing_write_env 4) ?s) = None
     \<and> saved (combine_files (failing_write_env 4) ?s) =
         Some (separator_line @ ''/tmp/a.txt'' @ [CHR 0x0A])
     \<and> log_textbox (after (combine_files (failing_write_env 4) ?s)) =
         [''Error saving combined file: No space left on device'']"
    by (simp add: a closing cut cut_after_path_line save_error_line_def rx del: take_append)
  have "save_dialog (failing_write_env 3) (offered_path (failing_write_env 3) two_files) = ''/tmp/out.txt''"
    and "''/tmp/out.txt'' \<noteq> []"
    and "open_result (failing_write_env 3) ''/tmp/out.txt'' = None
       \<and> file_list two_files = [''/tmp/a.txt''] @ ''/tmp/b.txt'' # []
       \<and> (\<forall>q\<in>set [''/tmp/a.txt'']. \<exists>t. read_result (failing_write_env 3) q = Content t)
       \<and> (0 = (0::nat) \<and> read_result (failing_write_env 3) ''/tmp/b.txt'' \<noteq> DecodeError
            \<or> 0 < (3::nat) \<and> read_result (failing_write_env 3) ''/tmp/b.txt'' = Content [])
       \<and> (\<forall>j < 3 * length [''/tmp/a.txt''] + 0. write_result (failing_write_env 3) j = None)
       \<and> write_result (failing_write_env 3) (3 * length [''/tmp/a.txt''] + 0) = Some ?err"
    by (simp_all add: failing_write_env_def demo_env_def two_files_def)
  then have "raised (combine_files (failing_write_env 3) two_files) = None
     \<and> saved (combine_files (failing_write_env 3) two_files) =
         Some (take (flushed (failing_write_env 3))
                (concat (map (\<lambda>q. block q (content_of (failing_write_env 3) q)) [''/tmp/a.txt''])
                 @ concat (take (Suc 0) [separator_line @ ''/tmp/b.txt'' @ [CHR 0x0A] @ separator_line,
                                         [], [CHR 0x0A, CHR 0x0A]])))
     \<and> log_textbox (after (combine_files (failing_write_env 3) two_files)) =
         log_textbox (snd (read_file (failing_write_env 3) ''/tmp/b.txt'' two_files))
         @ [save_error_line (case close_result (failing_write_env 3) of None \<Rightarrow> ?err | Some c \<Rightarrow> c)
              ''/tmp/out.txt'']"
    using sink_failure_aborts [of "failing_write_env 3" two_files "''/tmp/out.txt''" ?err
        "[''/tmp/a.txt'']" "''/tmp/b.txt''" "[]" 0 "[]"]
    by blast
  then have 3: "raised (combine_files (failing_write_env 3) two_files) = None
     \<and> saved (combine_files (failing_write_env 3) two_files) =
         Some (separator_line @ ''/tmp/a.txt'' @ [CHR 0x0A])
     \<and> log_textbox (after (combine_files (failing_write_env 3) two_files)) =
       [''File not found: /tmp/b.txt'', ''Error saving combined file: No space left on device'']"
    by (simp add: a closing cut cut_after_path_line save_error_line_def rb del: take_append)
  have "save_dialog failing_close_env (offered_path failing_close_env ?s) = ''/tmp/out.txt''"
    and "''/tmp/out.txt'' \<noteq> []"
    and "open_result failing_close_env ''/tmp/out.txt'' = None
       \<and> (\<forall>q\<in>set (file_list ?s). \<exists>t. read_result failing_close_env q = Content t)
       \<and> (\<forall>j < 3 * length (file_list ?s). write_result failing_close_env j = None)
       \<and> close_result failing_close_env = Some ?err"
    by (simp_all add: failing_close_env_def demo_env_def)
  then have "raised (combine_files failing_close_env ?s) = None
     \<and> saved (combine_files failing_close_env ?s) =
         Some (take (flushed failing_close_env)
                (concat (map (\<lambda>q. block q (content_of failing_close_env q)) (file_list ?s))))
     \<and> log_textbox (after (combine_files failing_close_env ?s)) =
         log_textbox ?s @ [''Files combined successfully.'', save_error_line ?err ''/tmp/out.txt'']"
    using sink_failure_aborts [of failing_close_env ?s "''/tmp/out.txt''" ?err]
    by blast
  then have 4: "raised (combine_files failing_close_env ?s) = None
     \<and> saved (combine_files failing_close_env ?s) =
         Some (separator_line @ ''/tmp/a.txt'' @ [CHR 0x0A])
     \<and> log_textbox (after (combine_files failing_close_env ?s)) =
         [''Files combined successfully.'', ''Error saving combined file: No space left on device'']"
    by (simp add: a' cut cut_after_path_line save_error_line_def empty_log del: take_append)
  from 1 2 3 4 show ?thesis
    by simp
qed

subsection \<open>A source file that cannot be read\<close>

text \<open>
  In general: with a working destination, the first listed file whose reading fails with
  an \<open>OSError\<close> ends the run by a \<open>TypeError\<close>, after the blocks of the files before it
  and its own header.
\<close>

lemma loop_step_read_error:
  assumes "read_result e p = ReadError rerr"
    and "write_result e (writes f) = None"
  shows "combine_loop e (p # rest) s f =
     (Some TypeError, snd (read_file e p s),
      f\<lparr>written := written f @ separator_line @ p @ [CHR 0x0A] @ separator_line,
        writes := Suc (writes f)\<rparr>)"
  using assms
  by (cases rerr) (simp_all add: read_file_def file_write_ok file_write_None seperator_eq)

lemma read_error_raises_TypeError:
  assumes "save_dialog e (offered_path e s) \<noteq> []"
    and "open_result e (save_dialog e (offered_path e s)) = None"
    and "close_result e = None"
    and "file_list s = pre @ p # rest"
    and "\<forall>q\<in>set pre. \<exists>t. read_result e q = Content t"
    and "read_result e p = ReadError rerr"
    and "\<forall>j \<le> 3 * length pre. write_result e j = None"
  shows "raised (combine_files e s) = Some TypeError"
    and "saved (combine_files e s) =
           Some (concat (map (\<lambda>q. block q (content_of e q)) pre)
                 @ separator_line @ p @ [CHR 0x0A] @ separator_line)"
proof -
  let ?s0 = "s\<lparr>last_directory := rsplit_head (save_dialog e (offered_path e s))\<rparr>"
  let ?init = "\<lparr>written = [], writes = 0, failed = False\<rparr>"
  let ?f = "\<lparr>written = concat (map (\<lambda>q. block q (content_of e q)) pre),
             writes = 3 * length pre, failed = False\<rparr>"
  have "combine_loop e (pre @ p # rest) ?s0 ?init = combine_loop e (p # rest) ?s0 ?f"
    using loop_prefix_ok [of pre e "?init" "p # rest" "?s0"] assms(5,7)
    by simp
  also have "\<dots> = (Some TypeError, snd (read_file e p ?s0),
      ?f\<lparr>written := written ?f @ separator_line @ p @ [CHR 0x0A] @ separator_line,
        writes := Suc (writes ?f)\<rparr>)"
    using assms(6,7) by (intro loop_step_read_error) simp_all
  finally have loop: "combine_loop e (pre @ p # rest) ?s0 ?init =
     (Some TypeError, snd (read_file e p ?s0),
      \<lparr>written = concat (map (\<lambda>q. block q (content_of e q)) pre)
                  @ separator_line @ p @ [CHR 0x0A] @ separator_line,
       writes = Suc (3 * length pre), failed = False\<rparr>)"
    by simp
  show "raised (combine_files e s) = Some TypeError"
    using assms(1-4) by (simp add: combine_files_def loop file_close_def)
  show "saved (combine_files e s) =
           Some (concat (map (\<lambda>q. block q (content_of e q)) pre)
                 @ separator_line @ p @ [CHR 0x0A] @ separator_line)"
    using assms(1-4) by (simp add: combine_files_def loop file_close_def on_disk_def)
qed

text \<open>
  Claim C1 at its own example: \<open>/tmp/a.txt\<close> holds \<open>hello\<close>, \<open>/tmp/b.txt\<close> does not
  exist. The read failure is logged once and \<open>read_file\<close> returns \<open>None\<close>; the header of
  the second block is written, and then \<open>f.write(None)\<close> raises \<open>TypeError\<close>, which no
  \<open>except\<close> clause of \<open>combine_files\<close> catches: the exception leaves the method, the
  block of the missing file lacks its closing line breaks, and with the two paths in the
  other order the readable file is never reached.
\<close>

theorem failed_read_raises:
  "raised (combine_files demo_env two_files) = Some TypeError
   \<and> saved (combine_files demo_env two_files) =
       Some (block ''/tmp/a.txt'' ''hello''
             @ separator_line @ ''/tmp/b.txt'' @ [CHR 0x0A] @ separator_line)
   \<and> log_textbox (after (combine_files demo_env two_files)) = [''File not found: /tmp/b.txt'']
   \<and> raised (combine_files demo_env (two_files\<lparr>file_list := [''/tmp/b.txt'', ''/tmp/a.txt'']\<rparr>)) =
       Some TypeError
   \<and> saved (combine_files demo_env (two_files\<lparr>file_list := [''/tmp/b.txt'', ''/tmp/a.txt'']\<rparr>)) =
       Some (separator_line @ ''/tmp/b.txt'' @ [CHR 0x0A] @ separator_line)"
  by (simp add: combine_files_def demo_env_def two_files_def read_file_def file_write_def
      file_close_def on_disk_def Let_def block_def seperator_eq log_append_def)

section \<open>Properties of the default file name\<close>

lemma below_ten:
  "k < 10 \<Longrightarrow> k = 0 \<or> k = 1 \<or> k = 2 \<or> k = 3 \<or> k = 4 \<or> k = 5 \<or> k = 6 \<or> k = 7 \<or> k = 8 \<or> k = (9::nat)"
  by arith

lemma digit_char_value: "of_char (digit_char d) - (48::nat) = d mod 10"
proof -
  have "d mod 10 < 10" by simp
  from below_ten [OF this] show ?thesis
    by (auto simp: digit_char_def)
qed

lemma is_digit_digit_char: "is_digit (digit_char d)"
proof -
  have "d mod 10 < length ''0123456789''" by simp
  then have "''0123456789'' ! (d mod 10) \<in> set ''0123456789''"
    by (rule nth_mem)
  then show ?thesis
    by (simp only: is_digit_def digit_char_def)
qed

lemma dec_1: "n < 10 \<Longrightarrow> dec n = [digit_char n]"
  by (subst dec.simps) simp

lemma dec_step: "10 \<le> n \<Longrightarrow> dec n = dec (n div 10) @ [digit_char n]"
  by (subst dec.simps) simp

lemma dec_2:
  assumes "10 \<le> n" "n < 100"
  shows "dec n = [digit_char (n div 10), digit_char n]"
proof -
  have "n div 10 < 10" using assms by simp
  then show ?thesis
    using assms by (simp add: dec_step dec_1)
qed

lemma dec_3:
  assumes "100 \<le> n" "n < 1000"
  shows "dec n = [digit_char (n div 100), digit_char (n div 10), digit_char n]"
proof -
  have "10 \<le> n div 10" "n div 10 < 100" "n div 10 div 10 = n div 100"
    using assms by (simp_all add: div_mult2_eq [symmetric])
  then show ?thesis
    using assms dec_2 [of "n div 10"] by (simp add: dec_step)
qed

lemma dec_4:
  assumes "1000 \<le> n" "n < 10000"
  shows "dec n = [digit_char (n div 1000), digit_char (n div 100), digit_char (n div 10), digit_char n]"
proof -
  have "100 \<le> n div 10" "n div 10 < 1000" "n div 10 div 10 = n div 100"
    "n div 10 div 100 = n div 1000"
    using assms by (simp_all add: div_mult2_eq [symmetric])
  then show ?thesis
    using assms dec_3 [of "n div 10"] by (simp add: dec_step)
qed

lemma digit_char_0: "k mod 10 = 0 \<Longrightarrow> digit_char k = CHR ''0''"
  by (simp add: digit_char_def)

lemma replicate_small:
  "replicate 1 x = [x]" "replicate 2 x = [x, x]" "replicate 3 x = [x, x, x]"
  by (simp_all add: numeral_2_eq_2 numeral_3_eq_3)

lemma zfill_2: "n < 100 \<Longrightarrow> zfill 2 (dec n) = [digit_char (n div 10), digit_char n]"
  by (cases "n < 10") (simp_all add: zfill_def dec_1 dec_2 digit_char_0 replicate_small)

lemma zfill_4: "n < 10000 \<Longrightarrow>
    zfill 4 (dec n) = [digit_char (n div 1000), digit_char (n div 100), digit_char (n div 10), digit_char n]"
proof -
  assume n: "n < 10000"
  consider "n < 10" | "10 \<le> n" "n < 100" | "100 \<le> n" "n < 1000" | "1000 \<le> n"
    by linarith
  then show ?thesis
  proof cases
    case 1
    then show ?thesis by (simp add: zfill_def dec_1 digit_char_0 replicate_small)
  next
    case 2
    then show ?thesis by (simp add: zfill_def dec_2 digit_char_0 replicate_small)
  next
    case 3
    then show ?thesis by (simp add: zfill_def dec_3 digit_char_0 replicate_small)
  next
    case 4
    with n show ?thesis by (simp add: zfill_def dec_4)
  qed
qed

lemma digits_value_2: "digits_value [digit_char a, digit_char b] = 10 * (a mod 10) + b mod 10"
  by (simp add: digits_value_def digit_char_value)

lemma digits_value_4:
  "digits_value [digit_char a, digit_char b, digit_char c, digit_char d] =
     1000 * (a mod 10) + 100 * (b mod 10) + 10 * (c mod 10) + d mod 10"
  by (simp add: digits_value_def digit_char_value)

lemma two_digits:
  assumes "n < 100"
  shows "10 * (n div 10 mod 10) + n mod 10 = (n::nat)"
proof -
  have "n div 10 < 10"
    using assms by simp
  then show ?thesis
    by simp
qed

lemma four_digits:
  assumes "n < 10000"
  shows "1000 * (n div 1000 mod 10) + 100 * (n div 100 mod 10) + 10 * (n div 10 mod 10) + n mod 10 = (n::nat)"
proof -
  have top: "n div 1000 mod 10 = n div 1000"
    using assms by simp
  have 1: "n = 10 * (n div 10) + n mod 10"
    by simp
  have "n div 10 = 10 * (n div 10 div 10) + n div 10 mod 10"
    by simp
  then have 2: "n div 10 = 10 * (n div 100) + n div 10 mod 10"
    by (simp add: div_mult2_eq [symmetric])
  have "n div 100 = 10 * (n div 100 div 10) + n div 100 mod 10"
    by simp
  then have 3: "n div 100 = 10 * (n div 1000) + n div 100 mod 10"
    by (simp add: div_mult2_eq [symmetric])
  show ?thesis
    unfolding top using 1 2 3 by linarith
qed

text \<open>
  Claim C9. For a date of the clock with a four-digit year, the name offered is
  \<open>combined_\<close>, eight decimal digits and \<open>.txt\<close>; the digits are the year in four, the
  month in two and the day in two; the dialog is offered that name in the last used
  directory.
\<close>

theorem default_name_format:
  assumes "valid_date (now e)"
  shows "offered_path e s = last_directory s @ ''/'' @ default_filename (now e)
    \<and> (\<exists>y m d. default_filename (now e) = ''combined_'' @ y @ m @ d @ ''.txt''
          \<and> length y = 4 \<and> length m = 2 \<and> length d = 2
          \<and> list_all is_digit (y @ m @ d)
          \<and> digits_value y = year (now e)
          \<and> digits_value m = month (now e)
          \<and> digits_value d = day (now e))"
proof -
  let ?y = "zfill 4 (dec (year (now e)))"
  let ?m = "zfill 2 (dec (month (now e)))"
  let ?d = "zfill 2 (dec (day (now e)))"
  from assms have y: "year (now e) < 10000" and m: "month (now e) < 100" and d: "day (now e) < 100"
    by (simp_all add: valid_date_def)
  have "default_filename (now e) = ''combined_'' @ ?y @ ?m @ ?d @ ''.txt''"
    by (simp add: default_filename_def strftime_Ymd_def)
  moreover have "length ?y = 4" "length ?m = 2" "length ?d = 2"
    using y m d by (simp_all only: zfill_4 zfill_2) simp_all
  moreover have "list_all is_digit (?y @ ?m @ ?d)"
    using y m d by (simp only: zfill_4 zfill_2) (simp add: is_digit_digit_char)
  moreover have "digits_value ?y = year (now e)"
    using y by (simp only: zfill_4 digits_value_4 four_digits)
  moreover have "digits_value ?m = month (now e)"
    using m by (simp only: zfill_2 digits_value_2 two_digits)
  moreover have "digits_value ?d = day (now e)"
    using d by (simp only: zfill_2 digits_value_2 two_digits)
  ultimately show ?thesis
    unfolding offered_path_def by blast
qed

theorem default_name_format_witness:
  "valid_date (now demo_env)
   \<and> default_filename (now demo_env) = ''combined_20241018.txt''
   \<and> offered_path demo_env two_files = ''/tmp/combined_20241018.txt''
   \<and> (\<exists>y m d. default_filename (now demo_env) = ''combined_'' @ y @ m @ d @ ''.txt''
          \<and> length y = 4 \<and> length m = 2 \<and> length d = 2
          \<and> list_all is_digit (y @ m @ d)
          \<and> digits_value y = year (now demo_env)
          \<and> digits_value m = month (now demo_env)
          \<and> digits_value d = day (now demo_env))"
proof -
  have v: "valid_date (now demo_env)"
    by (simp add: valid_date_def demo_env_def)
  have name: "default_filename (now demo_env) = ''combined_20241018.txt''"
    by (simp add: default_filename_def strftime_Ymd_def demo_env_def zfill_4 zfill_2 digit_char_def)
  have "offered_path demo_env two_files = ''/tmp/combined_20241018.txt''"
    using default_name_format [OF v, of two_files] by (simp add: name two_files_def)
  with v name default_name_format [OF v, of two_files] show ?thesis
    by blast
qed

end
